theory Spec2Isabelle
  imports Main "HOL-Library.Char_ord" "HOL-Library.List_Lexorder" "HOL-Library.Multiset"
begin

section \<open>bazaar\_ai: Trader, Hand and Satchel (trader.py)\<close>

text \<open>
  A shallow embedding of \<^verbatim>\<open>src/bazaar_ai/trader.py\<close>. Objects are records, the
  mutating methods return the updated object, and every exception the code can raise is
  a value of \<open>error\<close> on the left of a sum. Python's unbounded integers are \<open>int\<close>;
  strings are \<open>string\<close>, compared lexicographically character by character as Python
  compares \<^verbatim>\<open>str\<close>.
\<close>

subsection \<open>Exceptions and the few Python values the string building needs\<close>

datatype error = AttributeError | TypeError | ValueError | IndexError | NameError

datatype 'g pyval = PyInt int | PyStr string | PyList "'g list"

text \<open>\<^verbatim>\<open>s += v\<close> for a \<^verbatim>\<open>str\<close> \<open>s\<close>: only another \<^verbatim>\<open>str\<close> can be concatenated.\<close>

fun str_iadd :: "string \<Rightarrow> 'g pyval \<Rightarrow> error + string" where
  "str_iadd s (PyStr t) = Inr (s @ t)"
| "str_iadd s (PyInt i) = Inl TypeError"
| "str_iadd s (PyList xs) = Inl TypeError"

text \<open>\<^verbatim>\<open>v[k]\<close> with an enumeration member \<open>k\<close> as the subscript: none of the three kinds
  of value accepts it (\<^verbatim>\<open>int\<close> is not subscriptable, \<^verbatim>\<open>str\<close> and \<^verbatim>\<open>list\<close> want integer
  indices).\<close>

definition getitem :: "'g pyval \<Rightarrow> 'k \<Rightarrow> error + 'g pyval" where
  "getitem v k = Inl TypeError"

text \<open>\<^verbatim>\<open>str(n)\<close> of an integer: its decimal digits, with a leading minus sign.\<close>

fun str_nat :: "nat \<Rightarrow> string" where
  "str_nat n =
     (if n < 10 then [char_of (48 + n)]
      else str_nat (n div 10) @ [char_of (48 + n mod 10)])"

declare str_nat.simps [simp del]

definition str_int :: "int \<Rightarrow> string" where
  "str_int i = (if i < 0 then CHR ''-'' # str_nat (nat (- i)) else str_nat (nat i))"

subsection \<open>The catalogue: good types, bonus types, goods and coins\<close>

text \<open>
  Modelled from the spec: the enumerations \<^verbatim>\<open>GoodTypes\<close> and \<^verbatim>\<open>BonusTypes\<close>
  (\<^verbatim>\<open>terms.py\<close>) and the classes of goods and coins are not among the sources; only
  their uses in \<^verbatim>\<open>trader.py\<close> are. The spec describes "one value per tradable good, plus
  one distinguished bulk good type", three bonus tiers, and a coin as an immutable pair
  of a value and its category.

  A member of an enumeration is identified by its \<^verbatim>\<open>name\<close>, so a good type is modelled
  by its name; \<^verbatim>\<open>GoodTypes.CAMEL\<close> is the member that \<^verbatim>\<open>trader.py\<close> refers to.
  \<^verbatim>\<open>BonusTypes\<close> has the three members that \<^verbatim>\<open>Satchel.__init__\<close> lists.
\<close>

datatype GoodTypes = GoodType (name: string)

definition CAMEL :: GoodTypes where
  "CAMEL = GoodType ''CAMEL''"

datatype BonusTypes = THREE | FOUR | FIVE

fun BonusTypes_name :: "BonusTypes \<Rightarrow> string" where
  "BonusTypes_name THREE = ''THREE''"
| "BonusTypes_name FOUR = ''FOUR''"
| "BonusTypes_name FIVE = ''FIVE''"

text \<open>Iterating over the enumeration yields its members in definition order.\<close>

definition BonusTypes_members :: "BonusTypes list" where
  "BonusTypes_members = [THREE, FOUR, FIVE]"

text \<open>
  A good exposes \<^verbatim>\<open>good_type\<close>. The record is used through its extensible scheme
  \<open>'a Good_scheme\<close>: whatever else tells two goods apart for \<^verbatim>\<open>==\<close> (an object identity,
  further attributes) lives in the extension, and with the extension \<open>unit\<close> two goods
  are equal exactly when their types are.
\<close>

record Good =
  good_type :: GoodTypes

text \<open>A coin exposes \<^verbatim>\<open>value\<close>, a bonus coin \<^verbatim>\<open>value\<close> and \<^verbatim>\<open>bonus_type\<close>.\<close>

record Coin =
  coin_value :: int

record BonusCoin = Coin +
  bonus_type :: BonusTypes

subsection \<open>Hand\<close>

record 'a Hand =
  goods :: "'a Good_scheme list"

text \<open>The sort key \<^verbatim>\<open>lambda good: good.good_type.name\<close>. Python's \<^verbatim>\<open>sorted\<close> and
  \<^verbatim>\<open>list.sort\<close> are stable, and so is \<open>sort_key\<close>.\<close>

definition good_key :: "'a Good_scheme \<Rightarrow> string" where
  "good_key good = name (good_type good)"

definition Hand_init :: "'a Good_scheme list \<Rightarrow> 'a Hand" where
  "Hand_init gs = \<lparr>goods = sort_key good_key gs\<rparr>"

definition Hand_append :: "'a Good_scheme \<Rightarrow> 'a Hand \<Rightarrow> 'a Hand" where
  "Hand_append good self = self\<lparr>goods := sort_key good_key (goods self @ [good])\<rparr>"

text \<open>\<^verbatim>\<open>list.remove\<close> deletes the first element equal to its argument and raises
  ValueError, before anything is modified, when there is none.\<close>

definition Hand_remove :: "'a Good_scheme \<Rightarrow> 'a Hand \<Rightarrow> error + 'a Hand" where
  "Hand_remove good self =
     (if good \<in> set (goods self)
      then Inr (self\<lparr>goods := sort_key good_key (remove1 good (goods self))\<rparr>)
      else Inl ValueError)"

definition Hand_count_goods :: "bool \<Rightarrow> 'a Hand \<Rightarrow> int" where
  "Hand_count_goods include_all self =
     fold (\<lambda>good count.
             if include_all \<or> good_type good \<noteq> CAMEL then count + 1 else count)
          (goods self) 0"

text \<open>
  Reading an attribute of a Hand: \<^verbatim>\<open>__init__\<close> sets \<^verbatim>\<open>_goods\<close> and the class defines the
  property \<^verbatim>\<open>goods\<close>; the class has no \<^verbatim>\<open>__getattr__\<close>, so any other data attribute
  is missing.
\<close>

definition Hand_getattr :: "string \<Rightarrow> 'a Hand \<Rightarrow> error + 'a Good_scheme pyval" where
  "Hand_getattr attr self =
     (if attr = ''goods'' \<or> attr = ''_goods'' then Inr (PyList (goods self))
      else Inl AttributeError)"

text \<open>
  \<^verbatim>\<open>Hand.__repr__\<close>. The members of \<^verbatim>\<open>GoodTypes\<close> in iteration order and \<^verbatim>\<open>str\<close> on
  the values read from the hand are parameters. The first statement after the
  initialisation of \<open>s\<close> reads \<^verbatim>\<open>self.goods_reserve_count\<close>.
\<close>

definition Hand_repr ::
  "GoodTypes list \<Rightarrow> ('a Good_scheme pyval \<Rightarrow> string) \<Rightarrow> 'a Hand \<Rightarrow> error + string" where
  "Hand_repr members str_of self =
     (case Hand_getattr ''goods_reserve_count'' self of
        Inl e \<Rightarrow> Inl e
      | Inr reserve \<Rightarrow>
          (let s = [] @ str_of reserve;
               goods_map =
                 fold (\<lambda>good m. m(good_type good \<mapsto>
                         (case m (good_type good) of None \<Rightarrow> 0 | Some c \<Rightarrow> c) + (1::int)))
                      (goods self) Map.empty
           in fold (\<lambda>gt r.
                      case r of
                        Inl e \<Rightarrow> Inl e
                      | Inr s \<Rightarrow>
                          if gt \<noteq> CAMEL then
                            (case Hand_getattr ''coin_stacks'' self of
                               Inl e \<Rightarrow> Inl e
                             | Inr stacks \<Rightarrow>
                                 (case getitem stacks gt of
                                    Inl e \<Rightarrow> Inl e
                                  | Inr stack \<Rightarrow>
                                      Inr (s @ ''_'' @ name gt @ '':''
                                             @ str_int (case goods_map gt of
                                                          None \<Rightarrow> 0 | Some c \<Rightarrow> c)
                                             @ '':'' @ str_of stack)))
                          else Inr s)
                   members (Inr s)))"

text \<open>\<^verbatim>\<open>Hand.__eq__\<close> against another Hand (for any other object the method returns
  \<^verbatim>\<open>None\<close>) and \<^verbatim>\<open>Hand.__hash__\<close>, with the built-in \<^verbatim>\<open>hash\<close> on strings as a parameter.\<close>

definition Hand_eq ::
  "GoodTypes list \<Rightarrow> ('a Good_scheme pyval \<Rightarrow> string) \<Rightarrow> 'a Hand \<Rightarrow> 'a Hand \<Rightarrow> error + bool" where
  "Hand_eq members str_of self other =
     (case Hand_repr members str_of self of
        Inl e \<Rightarrow> Inl e
      | Inr a \<Rightarrow>
          (case Hand_repr members str_of other of
             Inl e \<Rightarrow> Inl e
           | Inr b \<Rightarrow> Inr (a = b)))"

definition Hand_hash ::
  "(string \<Rightarrow> int) \<Rightarrow> GoodTypes list \<Rightarrow> ('a Good_scheme pyval \<Rightarrow> string) \<Rightarrow> 'a Hand \<Rightarrow> error + int"
  where
  "Hand_hash hash members str_of self =
     (case Hand_repr members str_of self of
        Inl e \<Rightarrow> Inl e
      | Inr a \<Rightarrow> Inr (hash a))"

text \<open>The invariant of the goods list, and the canonical content of a hand: the types of
  its goods in type-name order.\<close>

definition hand_sorted :: "'a Hand \<Rightarrow> bool" where
  "hand_sorted h = sorted (map good_key (goods h))"

definition canonical :: "'a Hand \<Rightarrow> GoodTypes list" where
  "canonical h = map good_type (sort_key good_key (goods h))"

subsection \<open>Satchel\<close>

text \<open>
  \<^verbatim>\<open>_bonus_coins\<close> is a dictionary whose keys are fixed at construction to the three
  bonus types and never change afterwards, so it is a total function on \<open>BonusTypes\<close>;
  \<^verbatim>\<open>.values()\<close> lists the entries in insertion order.
\<close>

record Satchel =
  coins :: "Coin list"
  bonus_coins :: "BonusTypes \<Rightarrow> BonusCoin list"

definition Satchel_init :: Satchel where
  "Satchel_init = \<lparr>coins = [], bonus_coins = (\<lambda>_. [])\<rparr>"

definition bonus_coins_values :: "Satchel \<Rightarrow> BonusCoin list list" where
  "bonus_coins_values self = map (bonus_coins self) [THREE, FOUR, FIVE]"

definition Satchel_get_bonus_coin_count :: "BonusTypes \<Rightarrow> Satchel \<Rightarrow> int" where
  "Satchel_get_bonus_coin_count bt self = int (length (bonus_coins self bt))"

definition Satchel_add_coin :: "Coin \<Rightarrow> Satchel \<Rightarrow> Satchel" where
  "Satchel_add_coin coin self = self\<lparr>coins := coins self @ [coin]\<rparr>"

definition Satchel_add_bonus_coin :: "BonusCoin \<Rightarrow> Satchel \<Rightarrow> Satchel" where
  "Satchel_add_bonus_coin bonus_coin self =
     self\<lparr>bonus_coins := (bonus_coins self)
             (bonus_type bonus_coin := bonus_coins self (bonus_type bonus_coin) @ [bonus_coin])\<rparr>"

definition Satchel_calculate_points :: "bool \<Rightarrow> Satchel \<Rightarrow> int" where
  "Satchel_calculate_points include_bonus_coins self =
     (let points = fold (\<lambda>coin points. points + coin_value coin) (coins self) 0
      in if include_bonus_coins
         then fold (\<lambda>bonus_coins_by_type points.
                      fold (\<lambda>bonus_coin points. points + coin_value bonus_coin)
                           bonus_coins_by_type points)
                   (bonus_coins_values self) points
         else points)"

text \<open>\<^verbatim>\<open>Satchel.__repr__\<close>: \<open>s\<close> starts as the empty string and the integer returned by
  \<^verbatim>\<open>calculate_points()\<close> is added to it with \<^verbatim>\<open>+=\<close>.\<close>

definition Satchel_repr :: "Satchel \<Rightarrow> error + string" where
  "Satchel_repr self =
     (case str_iadd [] (PyInt (Satchel_calculate_points False self) :: unit pyval) of
        Inl e \<Rightarrow> Inl e
      | Inr s \<Rightarrow>
          Inr (fold (\<lambda>bt s. s @ ''_'' @ BonusTypes_name bt @ '':''
                              @ str_int (Satchel_get_bonus_coin_count bt self))
                    BonusTypes_members s))"

definition Satchel_eq :: "Satchel \<Rightarrow> Satchel \<Rightarrow> error + bool" where
  "Satchel_eq self other =
     (case Satchel_repr self of
        Inl e \<Rightarrow> Inl e
      | Inr a \<Rightarrow>
          (case Satchel_repr other of
             Inl e \<Rightarrow> Inl e
           | Inr b \<Rightarrow> Inr (a = b)))"

text \<open>\<^verbatim>\<open>Satchel.__hash__\<close> evaluates \<^verbatim>\<open>repr(s)\<close>, and no \<open>s\<close> is bound there.\<close>

definition Satchel_hash :: "Satchel \<Rightarrow> error + int" where
  "Satchel_hash self = Inl NameError"

subsection \<open>Trader\<close>

text \<open>
  The four action classes (\<^verbatim>\<open>actions.py\<close>) are not among the sources: their
  \<^verbatim>\<open>get_all_actions\<close> generators are taken as functions from a hand and a market
  observation to a list of actions. The random generator is the standard library's
  \<^verbatim>\<open>random.Random\<close>: its state is abstract, and \<^verbatim>\<open>_randbelow(n)\<close> is a function from
  \<open>n\<close> and the state to the number drawn and the next state.
\<close>

record ('h, 'm, 'act) action_generators =
  Take_get_all_actions :: "'h \<Rightarrow> 'm \<Rightarrow> 'act list"
  Trade_get_all_actions :: "'h \<Rightarrow> 'm \<Rightarrow> 'act list"
  Sell_get_all_actions :: "'h \<Rightarrow> 'm \<Rightarrow> 'act list"
  Herd_get_all_actions :: "'h \<Rightarrow> 'm \<Rightarrow> 'act list"

record ('r, 'a) Trader =
  rng :: 'r
  trader_name :: string
  hand :: "'a Hand"
  satchel :: Satchel

definition Trader_init :: "(int \<Rightarrow> 'r) \<Rightarrow> int \<Rightarrow> string \<Rightarrow> ('r, 'a) Trader" where
  "Trader_init Random seed nm =
     \<lparr>rng = Random seed, trader_name = nm, hand = Hand_init [], satchel = Satchel_init\<rparr>"

definition Trader_get_all_actions ::
  "('a Hand, 'm, 'act) action_generators \<Rightarrow> ('r, 'a) Trader \<Rightarrow> 'm \<Rightarrow> 'act list" where
  "Trader_get_all_actions G self market_observation =
     (let actions = [];
          actions = actions @ Take_get_all_actions G (hand self) market_observation;
          actions = actions @ Trade_get_all_actions G (hand self) market_observation;
          actions = actions @ Sell_get_all_actions G (hand self) market_observation;
          actions = actions @ Herd_get_all_actions G (hand self) market_observation
      in actions)"

text \<open>\<^verbatim>\<open>Random.choice(seq)\<close>: IndexError on an empty sequence, otherwise
  \<^verbatim>\<open>seq[self._randbelow(len(seq))]\<close>, where an index past the end raises IndexError
  too.\<close>

definition choice ::
  "(nat \<Rightarrow> 'r \<Rightarrow> nat \<times> 'r) \<Rightarrow> 'x list \<Rightarrow> 'r \<Rightarrow> (error + 'x) \<times> 'r" where
  "choice randbelow seq r =
     (if seq = [] then (Inl IndexError, r)
      else (let (i, r') = randbelow (length seq) r
            in (if i < length seq then Inr (seq ! i) else Inl IndexError, r')))"

text \<open>The default \<^verbatim>\<open>Trader.select_action\<close>: the outcome and the trader with its
  generator advanced.\<close>

definition Trader_select_action ::
  "(nat \<Rightarrow> 'r \<Rightarrow> nat \<times> 'r) \<Rightarrow> ('a Hand, 'm, 'act) action_generators \<Rightarrow>
     ('r, 'a) Trader \<Rightarrow> 'm \<Rightarrow> (error + 'act) \<times> ('r, 'a) Trader" where
  "Trader_select_action randbelow G self market_observation =
     (let actions = Trader_get_all_actions G self market_observation;
          (res, r') = choice randbelow actions (rng self)
      in (res, self\<lparr>rng := r'\<rparr>))"

subsection \<open>Kinds of action and example objects\<close>

text \<open>The class of an action object, for stating that the list of all actions is
  partitioned by kind.\<close>

datatype action_kind = TakeKind | TradeKind | SellKind | HerdKind

text \<open>Concrete goods, a hand, a satchel, generators and a trader on which the theorems
  below are instantiated. The example trader is the first one of \<^verbatim>\<open>example.py\<close>; the
  example generator state is an integer and a draw below \<open>n\<close> is its residue.\<close>

definition gold :: Good where
  "gold = \<lparr>good_type = GoodType ''GOLD''\<rparr>"

definition silk :: Good where
  "silk = \<lparr>good_type = GoodType ''SILK''\<rparr>"

definition camel :: Good where
  "camel = \<lparr>good_type = CAMEL\<rparr>"

definition example_hand :: "unit Hand" where
  "example_hand = Hand_init [silk, camel, gold]"

definition example_satchel :: Satchel where
  "example_satchel =
     Satchel_add_bonus_coin \<lparr>coin_value = 5, bonus_type = FOUR\<rparr>
       (Satchel_add_coin \<lparr>coin_value = 3\<rparr> Satchel_init)"

definition example_generators :: "(unit Hand, unit, action_kind \<times> nat) action_generators" where
  "example_generators =
     \<lparr>Take_get_all_actions = (\<lambda>h m. [(TakeKind, 0)]),
      Trade_get_all_actions = (\<lambda>h m. []),
      Sell_get_all_actions = (\<lambda>h m. [(SellKind, 1), (SellKind, 2)]),
      Herd_get_all_actions = (\<lambda>h m. [(HerdKind, 0)])\<rparr>"

definition example_randbelow :: "nat \<Rightarrow> int \<Rightarrow> nat \<times> int" where
  "example_randbelow n r = (nat (r mod int n), r + 1)"

definition example_trader :: "(int, unit) Trader" where
  "example_trader = Trader_init (\<lambda>seed. seed) 356 ''Caveman''"

section \<open>Properties\<close>

subsection \<open>Counting goods\<close>

lemma fold_count_goods:
  "fold (\<lambda>good count. if P good then count + 1 else count) xs (c::int)
     = c + int (length (filter P xs))"
  by (induction xs arbitrary: c) simp_all

text \<open>
  C5. For every hand, \<^verbatim>\<open>count_goods(include_all=False)\<close> is the number of goods whose
  type is not the camel type, and \<^verbatim>\<open>count_goods(include_all=True)\<close> is the number of all
  goods in the hand, camels included.
\<close>

theorem Hand_count_goods_correct:
  "Hand_count_goods False h = int (length (filter (\<lambda>good. good_type good \<noteq> CAMEL) (goods h)))
   \<and> Hand_count_goods True h = int (length (goods h))"
  using fold_count_goods [of "\<lambda>good. good_type good \<noteq> CAMEL" "goods h" 0]
        fold_count_goods [of "\<lambda>good. True" "goods h" 0]
  by (simp add: Hand_count_goods_def)

lemma example_hand_goods: "goods example_hand = [camel, gold, silk]"
  by (simp add: example_hand_def Hand_init_def good_key_def silk_def camel_def gold_def
        CAMEL_def)

theorem Hand_count_goods_correct_witness:
  "Hand_count_goods False example_hand = 2 \<and> Hand_count_goods True example_hand = 3"
  using Hand_count_goods_correct [of example_hand]
  by (simp add: example_hand_goods silk_def camel_def gold_def CAMEL_def)

subsection \<open>Scoring\<close>

lemma fold_add_values:
  "fold (\<lambda>c (p::int). p + f c) xs a = a + sum_list (map f xs)"
  by (induction xs arbitrary: a) simp_all

text \<open>
  C4. For every satchel, \<^verbatim>\<open>calculate_points(include_bonus_coins)\<close> is the sum of the
  values of the payout coins plus, exactly when \<^verbatim>\<open>include_bonus_coins\<close> is true, the sum
  of the values of the bonus coins of every bonus type.
\<close>

theorem Satchel_calculate_points_sum:
  "Satchel_calculate_points include_bonus_coins s =
     sum_list (map coin_value (coins s))
     + (if include_bonus_coins
        then (\<Sum>bt\<leftarrow>[THREE, FOUR, FIVE]. sum_list (map coin_value (bonus_coins s bt)))
        else 0)"
  by (simp add: Satchel_calculate_points_def bonus_coins_values_def fold_add_values)

lemma example_satchel_contents:
  "coins example_satchel = [\<lparr>coin_value = 3\<rparr>]"
  "bonus_coins example_satchel THREE = []"
  "bonus_coins example_satchel FOUR = [\<lparr>coin_value = 5, bonus_type = FOUR\<rparr>]"
  "bonus_coins example_satchel FIVE = []"
  by (simp_all add: example_satchel_def Satchel_add_bonus_coin_def Satchel_add_coin_def
        Satchel_init_def)

theorem Satchel_calculate_points_sum_witness:
  "Satchel_calculate_points False example_satchel = 3
   \<and> Satchel_calculate_points True example_satchel = 8"
  using Satchel_calculate_points_sum [of False example_satchel]
        Satchel_calculate_points_sum [of True example_satchel]
  by (simp add: example_satchel_contents)

lemma calculate_points_split:
  "Satchel_calculate_points True s =
     Satchel_calculate_points False s
     + (sum_list (map coin_value (bonus_coins s THREE))
        + sum_list (map coin_value (bonus_coins s FOUR))
        + sum_list (map coin_value (bonus_coins s FIVE)))"
  by (simp add: Satchel_calculate_points_def bonus_coins_values_def fold_add_values)

lemma sum_values_nonneg:
  "(\<forall>x\<in>set xs. 0 \<le> f x) \<Longrightarrow> (0::int) \<le> sum_list (map f xs)"
  by (induction xs) simp_all

lemma sum_values_pos:
  "(\<forall>x\<in>set xs. 0 < f x) \<Longrightarrow> xs \<noteq> [] \<Longrightarrow> (0::int) < sum_list (map f xs)"
proof (induction xs)
  case Nil
  then show ?case by simp
next
  case (Cons x xs)
  have "0 \<le> sum_list (map f xs)"
    using Cons.prems(1) by (intro sum_values_nonneg) (simp add: less_imp_le)
  moreover have "0 < f x" using Cons.prems(1) by simp
  ultimately show ?case by simp
qed

text \<open>
  C3, as the code has it. The values of coins are whatever integers the coins carry;
  \<^verbatim>\<open>calculate_points\<close> adds them up without looking at their sign. So: for every
  satchel whose bonus coins all have a non-negative value, the score without bonus coins
  is at most the score with them; and for every satchel whose bonus coins all have a
  positive value, the two scores are equal if and only if the satchel holds no bonus
  coin of any type.
\<close>

theorem Satchel_calculate_points_bonus:
  "((\<forall>bt. \<forall>b\<in>set (bonus_coins s bt). 0 \<le> coin_value b) \<longrightarrow>
      Satchel_calculate_points False s \<le> Satchel_calculate_points True s)
   \<and> ((\<forall>bt. \<forall>b\<in>set (bonus_coins s bt). 0 < coin_value b) \<longrightarrow>
        (Satchel_calculate_points False s = Satchel_calculate_points True s
           \<longleftrightarrow> (\<forall>bt. Satchel_get_bonus_coin_count bt s = 0)))"
proof (intro conjI impI)
  assume nonneg: "\<forall>bt. \<forall>b\<in>set (bonus_coins s bt). 0 \<le> coin_value b"
  have "0 \<le> sum_list (map coin_value (bonus_coins s bt))" for bt
    using nonneg by (intro sum_values_nonneg) simp
  from this [of THREE] this [of FOUR] this [of FIVE]
  show "Satchel_calculate_points False s \<le> Satchel_calculate_points True s"
    by (simp add: calculate_points_split)
next
  assume pos: "\<forall>bt. \<forall>b\<in>set (bonus_coins s bt). 0 < coin_value b"
  have nn: "0 \<le> sum_list (map coin_value (bonus_coins s bt))" for bt
    using pos by (intro sum_values_nonneg) (simp add: less_imp_le)
  have pp: "bonus_coins s bt \<noteq> [] \<Longrightarrow> 0 < sum_list (map coin_value (bonus_coins s bt))" for bt
    using pos by (intro sum_values_pos) simp_all
  show "Satchel_calculate_points False s = Satchel_calculate_points True s
          \<longleftrightarrow> (\<forall>bt. Satchel_get_bonus_coin_count bt s = 0)"
  proof
    assume eq: "Satchel_calculate_points False s = Satchel_calculate_points True s"
    have "bonus_coins s bt = []" for bt
    proof (rule ccontr)
      assume "bonus_coins s bt \<noteq> []"
      then have "0 < sum_list (map coin_value (bonus_coins s bt))" by (rule pp)
      with nn [of THREE] nn [of FOUR] nn [of FIVE] eq show False
        by (cases bt) (simp_all add: calculate_points_split)
    qed
    then show "\<forall>bt. Satchel_get_bonus_coin_count bt s = 0"
      by (simp add: Satchel_get_bonus_coin_count_def)
  next
    assume "\<forall>bt. Satchel_get_bonus_coin_count bt s = 0"
    then have "bonus_coins s bt = []" for bt
      by (simp add: Satchel_get_bonus_coin_count_def)
    then show "Satchel_calculate_points False s = Satchel_calculate_points True s"
      by (simp add: calculate_points_split)
  qed
qed

text \<open>The example satchel holds one bonus coin, of value 5: the hypotheses hold, the
  score without bonus coins is smaller, and the two scores differ.\<close>

theorem Satchel_calculate_points_bonus_witness:
  "list_all (\<lambda>b. 0 < coin_value b) (concat (bonus_coins_values example_satchel))
   \<and> Satchel_calculate_points False example_satchel
       \<le> Satchel_calculate_points True example_satchel
   \<and> Satchel_calculate_points False example_satchel
       \<noteq> Satchel_calculate_points True example_satchel
   \<and> Satchel_get_bonus_coin_count FOUR example_satchel \<noteq> 0"
proof -
  have pos: "\<forall>bt. \<forall>b\<in>set (bonus_coins example_satchel bt). 0 < coin_value b"
  proof
    fix bt show "\<forall>b\<in>set (bonus_coins example_satchel bt). 0 < coin_value b"
      by (cases bt) (simp_all add: example_satchel_contents)
  qed
  then have nonneg: "\<forall>bt. \<forall>b\<in>set (bonus_coins example_satchel bt). 0 \<le> coin_value b"
    by (simp add: less_imp_le)
  have four: "Satchel_get_bonus_coin_count FOUR example_satchel \<noteq> 0"
    by (simp add: Satchel_get_bonus_coin_count_def example_satchel_contents)
  have all: "list_all (\<lambda>b. 0 < coin_value b) (concat (bonus_coins_values example_satchel))"
    by (simp add: bonus_coins_values_def example_satchel_contents)
  show ?thesis
    using pos nonneg four all Satchel_calculate_points_bonus [of example_satchel]
    by blast
qed

text \<open>A satchel holding a single bonus coin of value \<open>-1\<close> scores less with its bonus
  coins than without: the inequality of C3 as stated does not hold for every satchel.\<close>

theorem Satchel_calculate_points_bonus_counterexample:
  "\<not> (Satchel_calculate_points False
         (Satchel_add_bonus_coin \<lparr>coin_value = - 1, bonus_type = THREE\<rparr> Satchel_init)
       \<le> Satchel_calculate_points True
         (Satchel_add_bonus_coin \<lparr>coin_value = - 1, bonus_type = THREE\<rparr> Satchel_init))"
  by (simp add: Satchel_calculate_points_def bonus_coins_values_def
        Satchel_add_bonus_coin_def Satchel_init_def)

text \<open>
  C10. For every satchel, \<^verbatim>\<open>add_coin\<close> leaves the count of bonus coins of every type
  unchanged; \<^verbatim>\<open>add_bonus_coin(b)\<close> raises the count for the bonus type of \<open>b\<close> by exactly
  one, leaves the counts of the other types unchanged, and leaves the score without
  bonus coins unchanged.
\<close>

theorem Satchel_add_frame:
  "Satchel_get_bonus_coin_count bt (Satchel_add_coin c s) = Satchel_get_bonus_coin_count bt s
   \<and> Satchel_get_bonus_coin_count bt (Satchel_add_bonus_coin b s)
       = Satchel_get_bonus_coin_count bt s + (if bt = bonus_type b then 1 else 0)
   \<and> Satchel_calculate_points False (Satchel_add_bonus_coin b s)
       = Satchel_calculate_points False s"
  by (simp add: Satchel_get_bonus_coin_count_def Satchel_add_coin_def
        Satchel_add_bonus_coin_def Satchel_calculate_points_def)

theorem Satchel_add_frame_witness:
  "Satchel_get_bonus_coin_count FOUR (Satchel_add_coin \<lparr>coin_value = 7\<rparr> example_satchel) = 1
   \<and> Satchel_get_bonus_coin_count FOUR
        (Satchel_add_bonus_coin \<lparr>coin_value = 4, bonus_type = FOUR\<rparr> example_satchel) = 2
   \<and> Satchel_get_bonus_coin_count FIVE
        (Satchel_add_bonus_coin \<lparr>coin_value = 4, bonus_type = FOUR\<rparr> example_satchel) = 0
   \<and> Satchel_calculate_points False
        (Satchel_add_bonus_coin \<lparr>coin_value = 4, bonus_type = FOUR\<rparr> example_satchel) = 3"
  using Satchel_add_frame [of FOUR "\<lparr>coin_value = 7\<rparr>" example_satchel
          "\<lparr>coin_value = 4, bonus_type = FOUR\<rparr>"]
        Satchel_add_frame [of FIVE "\<lparr>coin_value = 7\<rparr>" example_satchel
          "\<lparr>coin_value = 4, bonus_type = FOUR\<rparr>"]
  by (simp add: Satchel_get_bonus_coin_count_def Satchel_calculate_points_def
        example_satchel_contents)

subsection \<open>The sorted goods list\<close>

lemma map_key_sort_key: "map f (sort_key f xs) = sort (map f xs)"
  by (rule properties_for_sort [symmetric]) simp_all

lemma map_good_type_from_keys: "map good_type xs = map GoodType (map good_key xs)"
  by (simp add: good_key_def)

lemma canonical_cong_mset:
  assumes "mset (goods h') = mset (goods h)"
  shows "canonical h' = canonical h"
proof -
  have "mset (map good_key (goods h')) = mset (map good_key (goods h))"
    using assms by (metis mset_map)
  then have "sort (map good_key (goods h')) = sort (map good_key (goods h))"
    by (metis properties_for_sort sorted_sort mset_sort)
  then show ?thesis
    unfolding canonical_def map_good_type_from_keys map_key_sort_key by simp
qed

lemma canonical_if_sorted:
  "hand_sorted h \<Longrightarrow> canonical h = map good_type (goods h)"
  by (simp add: canonical_def hand_sorted_def sort_key_id_if_sorted)

lemma hand_sorted_Hand_init: "hand_sorted (Hand_init gs)"
  by (simp add: hand_sorted_def Hand_init_def)

lemma hand_sorted_Hand_append: "hand_sorted (Hand_append g h)"
  by (simp add: hand_sorted_def Hand_append_def)

lemma hand_sorted_Hand_remove: "Hand_remove g h = Inr h' \<Longrightarrow> hand_sorted h'"
  by (auto simp: hand_sorted_def Hand_remove_def split: if_splits)

lemma Hand_round_trip_goods:
  "Hand_remove x (Hand_append x h)
     = Inr (h\<lparr>goods := sort_key good_key (remove1 x (sort_key good_key (goods h @ [x])))\<rparr>)"
  by (simp add: Hand_remove_def Hand_append_def)

lemma remove1_after_append_sort:
  assumes "sorted (map f xs)" and "x \<notin> set xs"
  shows "remove1 x (sort_key f (xs @ [x])) = xs"
proof -
  let ?zs = "remove1 x (sort_key f (xs @ [x]))"
  have "sort_key f xs = ?zs"
  proof (rule properties_for_sort_key)
    show "mset ?zs = mset xs" by simp
    show "sorted (map f ?zs)" by (simp add: sorted_map_remove1)
    fix k assume "k \<in> set ?zs"
    have "filter (\<lambda>y. f k = f y) ?zs
            = remove1 x (filter (\<lambda>y. f y = f k) (sort_key f (xs @ [x])))"
      by (simp add: filter_remove1 eq_commute)
    also have "\<dots> = remove1 x (filter (\<lambda>y. f y = f k) (xs @ [x]))"
      by (simp only: sort_key_stable)
    also have "\<dots> = filter (\<lambda>y. f k = f y) xs"
      using assms(2) by (simp add: remove1_append eq_commute)
    finally show "filter (\<lambda>y. f k = f y) ?zs = filter (\<lambda>y. f k = f y) xs" .
  qed
  with assms(1) show ?thesis by (simp add: sort_key_id_if_sorted)
qed

text \<open>
  C6. For every hand and every good \<open>x\<close>, \<^verbatim>\<open>hand.append(x)\<close> followed by
  \<^verbatim>\<open>hand.remove(x)\<close> succeeds and restores the canonical content of the hand, the types
  of its goods in type-name order. When the goods list was sorted before, as every list
  that \<^verbatim>\<open>__init__\<close>, \<^verbatim>\<open>append\<close> and \<^verbatim>\<open>remove\<close> leave is, it reads the same type by type
  afterwards; and it is the very same list when \<open>x\<close> was not in the hand before, or when
  goods of the same type are equal.
\<close>

theorem Hand_append_remove_round_trip:
  "\<exists>h'. Hand_remove x (Hand_append x h) = Inr h'
        \<and> canonical h' = canonical h
        \<and> (hand_sorted h \<longrightarrow> map good_type (goods h') = map good_type (goods h))
        \<and> (hand_sorted h \<and> (x \<notin> set (goods h) \<or> inj_on good_type (set (goods h)))
             \<longrightarrow> goods h' = goods h)"
proof -
  let ?h' = "h\<lparr>goods := sort_key good_key (remove1 x (sort_key good_key (goods h @ [x])))\<rparr>"
  have r: "Hand_remove x (Hand_append x h) = Inr ?h'"
    by (rule Hand_round_trip_goods)
  have m: "mset (goods ?h') = mset (goods h)"
    by simp
  have c: "canonical ?h' = canonical h"
    using m by (rule canonical_cong_mset)
  have s: "hand_sorted ?h'"
    by (simp add: hand_sorted_def)
  have t: "map good_type (goods ?h') = map good_type (goods h)" if "hand_sorted h"
    using c s that by (simp add: canonical_if_sorted)
  have e: "goods ?h' = goods h"
    if srt: "hand_sorted h" and d: "x \<notin> set (goods h) \<or> inj_on good_type (set (goods h))"
  proof (cases "x \<in> set (goods h)")
    case False
    with srt have "remove1 x (sort_key good_key (goods h @ [x])) = goods h"
      by (intro remove1_after_append_sort) (simp_all add: hand_sorted_def)
    with srt show ?thesis
      by (simp add: hand_sorted_def sort_key_id_if_sorted)
  next
    case True
    with d have inj: "inj_on good_type (set (goods h))" by simp
    have "set (goods ?h') = set (goods h)"
      using m by (rule mset_eq_setD)
    with inj have "inj_on good_type (set (goods ?h') \<union> set (goods h))" by simp
    then show ?thesis
      using t [OF srt] by (simp only: inj_on_map_eq_map)
  qed
  from r c t e show ?thesis by blast
qed

text \<open>Adding a gold to the example hand and removing it again gives the example hand
  back.\<close>

lemma inj_good_type_unit: "inj_on good_type (A :: Good set)"
  by (rule inj_onI) simp

theorem Hand_append_remove_round_trip_witness:
  "hand_sorted example_hand
   \<and> inj_on good_type (set (goods example_hand))
   \<and> Hand_remove gold (Hand_append gold example_hand) = Inr example_hand"
proof -
  have s: "hand_sorted example_hand"
    by (simp add: example_hand_def hand_sorted_Hand_init)
  have i: "inj_on good_type (set (goods example_hand))"
    by (rule inj_good_type_unit)
  from s i Hand_append_remove_round_trip [of gold example_hand]
  obtain h' where "Hand_remove gold (Hand_append gold example_hand) = Inr h'"
    and "goods h' = goods example_hand"
    by blast
  then have "Hand_remove gold (Hand_append gold example_hand) = Inr example_hand"
    by simp
  with s i show ?thesis by simp
qed

text \<open>
  C9. The goods list of a hand is sorted by good type name after construction, after
  every \<^verbatim>\<open>append\<close> and after every \<^verbatim>\<open>remove\<close> that returns (one that raises ValueError
  has not touched the list).
\<close>

theorem Hand_sorted_invariant:
  "hand_sorted (Hand_init gs)
   \<and> hand_sorted (Hand_append g h)
   \<and> (\<forall>h'. Hand_remove g h = Inr h' \<longrightarrow> hand_sorted h')"
  by (simp add: hand_sorted_Hand_init hand_sorted_Hand_append hand_sorted_Hand_remove)

theorem Hand_sorted_invariant_witness:
  "hand_sorted (Hand_init [silk, camel, gold])
   \<and> hand_sorted (Hand_append gold example_hand)
   \<and> Hand_remove silk example_hand = Inr \<lparr>goods = [camel, gold]\<rparr>
   \<and> hand_sorted \<lparr>goods = [camel, gold]\<rparr>"
proof -
  have "Hand_remove silk example_hand = Inr \<lparr>goods = [camel, gold]\<rparr>"
    by (simp add: Hand_remove_def example_hand_goods good_key_def silk_def camel_def gold_def
          CAMEL_def)
  with Hand_sorted_invariant [of "[silk, camel, gold]" gold example_hand]
       Hand_sorted_invariant [of "[]" silk example_hand]
  show ?thesis by blast
qed

subsection \<open>The actions of a trader\<close>

text \<open>
  C7. For every hand and market observation, \<^verbatim>\<open>Trader.get_all_actions\<close> returns the
  lists of the Take, Trade, Sell and Herd generators on that hand and observation,
  concatenated in this order. So when every generator returns actions of its own kind
  only, the actions of each kind in the result are exactly the list of that kind's
  generator: nothing of another origin is added and nothing is left out.
\<close>

theorem Trader_get_all_actions_concat:
  "Trader_get_all_actions G self obs =
     Take_get_all_actions G (hand self) obs @ Trade_get_all_actions G (hand self) obs
       @ Sell_get_all_actions G (hand self) obs @ Herd_get_all_actions G (hand self) obs
   \<and> ((\<forall>a\<in>set (Take_get_all_actions G (hand self) obs). kind a = TakeKind)
        \<and> (\<forall>a\<in>set (Trade_get_all_actions G (hand self) obs). kind a = TradeKind)
        \<and> (\<forall>a\<in>set (Sell_get_all_actions G (hand self) obs). kind a = SellKind)
        \<and> (\<forall>a\<in>set (Herd_get_all_actions G (hand self) obs). kind a = HerdKind)
      \<longrightarrow> filter (\<lambda>a. kind a = TakeKind) (Trader_get_all_actions G self obs)
            = Take_get_all_actions G (hand self) obs
        \<and> filter (\<lambda>a. kind a = TradeKind) (Trader_get_all_actions G self obs)
            = Trade_get_all_actions G (hand self) obs
        \<and> filter (\<lambda>a. kind a = SellKind) (Trader_get_all_actions G self obs)
            = Sell_get_all_actions G (hand self) obs
        \<and> filter (\<lambda>a. kind a = HerdKind) (Trader_get_all_actions G self obs)
            = Herd_get_all_actions G (hand self) obs)"
proof (intro conjI impI)
  show c: "Trader_get_all_actions G self obs =
     Take_get_all_actions G (hand self) obs @ Trade_get_all_actions G (hand self) obs
       @ Sell_get_all_actions G (hand self) obs @ Herd_get_all_actions G (hand self) obs"
    by (simp add: Trader_get_all_actions_def)
  assume k: "(\<forall>a\<in>set (Take_get_all_actions G (hand self) obs). kind a = TakeKind)
        \<and> (\<forall>a\<in>set (Trade_get_all_actions G (hand self) obs). kind a = TradeKind)
        \<and> (\<forall>a\<in>set (Sell_get_all_actions G (hand self) obs). kind a = SellKind)
        \<and> (\<forall>a\<in>set (Herd_get_all_actions G (hand self) obs). kind a = HerdKind)"
  show "filter (\<lambda>a. kind a = TakeKind) (Trader_get_all_actions G self obs)
            = Take_get_all_actions G (hand self) obs"
    using k by (simp add: c)
  show "filter (\<lambda>a. kind a = TradeKind) (Trader_get_all_actions G self obs)
            = Trade_get_all_actions G (hand self) obs"
    using k by (simp add: c)
  show "filter (\<lambda>a. kind a = SellKind) (Trader_get_all_actions G self obs)
            = Sell_get_all_actions G (hand self) obs"
    using k by (simp add: c)
  show "filter (\<lambda>a. kind a = HerdKind) (Trader_get_all_actions G self obs)
            = Herd_get_all_actions G (hand self) obs"
    using k by (simp add: c)
qed

lemma example_generators_simps:
  "Take_get_all_actions example_generators h m = [(TakeKind, 0)]"
  "Trade_get_all_actions example_generators h m = []"
  "Sell_get_all_actions example_generators h m = [(SellKind, 1), (SellKind, 2)]"
  "Herd_get_all_actions example_generators h m = [(HerdKind, 0)]"
  by (simp_all add: example_generators_def)

theorem Trader_get_all_actions_concat_witness:
  "Trader_get_all_actions example_generators example_trader ()
     = [(TakeKind, 0), (SellKind, 1), (SellKind, 2), (HerdKind, 0)]
   \<and> filter (\<lambda>a. fst a = SellKind) (Trader_get_all_actions example_generators example_trader ())
     = [(SellKind, 1), (SellKind, 2)]
   \<and> filter (\<lambda>a. fst a = TradeKind) (Trader_get_all_actions example_generators example_trader ())
     = []"
  using Trader_get_all_actions_concat [of example_generators example_trader "()" fst]
  by (simp add: example_generators_simps)

text \<open>
  C8. Whenever the list returned by \<^verbatim>\<open>get_all_actions(market_observation)\<close> is not
  empty, the default \<^verbatim>\<open>Trader.select_action\<close> returns an element of that list. The
  generator is the standard library's: the number it draws below the length of the list
  is assumed to be below that length.
\<close>

theorem Trader_select_action_legal:
  assumes "Trader_get_all_actions G self obs \<noteq> []"
    and "fst (randbelow (length (Trader_get_all_actions G self obs)) (rng self))
           < length (Trader_get_all_actions G self obs)"
  shows "\<exists>a. fst (Trader_select_action randbelow G self obs) = Inr a
             \<and> a \<in> set (Trader_get_all_actions G self obs)"
  using assms
  by (auto simp: Trader_select_action_def choice_def Let_def split: prod.splits)

lemma example_actions:
  "Trader_get_all_actions example_generators example_trader ()
     = [(TakeKind, 0), (SellKind, 1), (SellKind, 2), (HerdKind, 0)]"
  by (simp add: Trader_get_all_actions_def example_generators_simps)

lemma example_trader_rng: "rng example_trader = 356"
  by (simp add: example_trader_def Trader_init_def)

theorem Trader_select_action_legal_witness:
  "Trader_get_all_actions example_generators example_trader () \<noteq> []
   \<and> fst (example_randbelow
            (length (Trader_get_all_actions example_generators example_trader ()))
            (rng example_trader))
       < length (Trader_get_all_actions example_generators example_trader ())
   \<and> fst (Trader_select_action example_randbelow example_generators example_trader ())
       = Inr (TakeKind, 0)
   \<and> (TakeKind, 0) \<in> set (Trader_get_all_actions example_generators example_trader ())"
proof -
  have n: "Trader_get_all_actions example_generators example_trader () \<noteq> []"
    by (simp add: example_actions)
  have b: "fst (example_randbelow
                  (length (Trader_get_all_actions example_generators example_trader ()))
                  (rng example_trader))
             < length (Trader_get_all_actions example_generators example_trader ())"
    by (simp add: example_actions example_randbelow_def example_trader_rng)
  have v: "fst (Trader_select_action example_randbelow example_generators example_trader ())
             = Inr (TakeKind, 0)"
    by (simp add: Trader_select_action_def choice_def example_actions example_randbelow_def
          example_trader_rng)
  from Trader_select_action_legal
         [where G = example_generators and self = example_trader and obs = "()"
            and randbelow = example_randbelow]
       v n b
  show ?thesis
    by auto
qed

subsection \<open>Equality and hashing\<close>

text \<open>
  C1, on the code. \<^verbatim>\<open>Hand.__repr__\<close> reads \<^verbatim>\<open>self.goods_reserve_count\<close>, which no
  Hand has, so comparing any two hands raises AttributeError instead of returning a truth
  value, and so does hashing a hand.
\<close>

theorem Hand_eq_raises:
  "Hand_eq members str_of h1 h2 = Inl AttributeError
   \<and> Hand_hash hash members str_of h1 = Inl AttributeError"
  by (simp add: Hand_eq_def Hand_hash_def Hand_repr_def Hand_getattr_def)

text \<open>
  C2, on the code. \<^verbatim>\<open>Satchel.__repr__\<close> adds the integer score to a string, so comparing
  any two satchels raises TypeError instead of returning a truth value.
\<close>

theorem Satchel_eq_raises:
  "Satchel_eq s1 s2 = Inl TypeError"
  by (simp add: Satchel_eq_def Satchel_repr_def)

end
